theory Spec2Isabelle
  imports Main "HOL-Library.Log_Nat" "HOL-Library.AList"
begin

section \<open>Python values\<close>

text \<open>
  A Python \<open>float\<close> is an IEEE double. A finite double is kept exactly, as a sign, a
  mantissa and a binary exponent: \<open>Finite s m e\<close> is \<open>(-1)^s * m * 2^e\<close>.
\<close>

datatype pyfloat = Finite bool nat int | Infinity bool | NaN

text \<open>
  The values \<open>response.json()\<close> can return, which are also the values stored in the
  dictionaries \<open>ping_server\<close> builds. A \<open>dict\<close> is an association list in insertion
  order, read with \<open>map_of\<close>. A \<open>str\<close> is kept as its UTF-8 bytes.
\<close>

datatype json =
    JNull
  | JBool bool
  | JInt int
  | JFloat pyfloat
  | JStr string
  | JList "json list"
  | JDict "(string \<times> json) list"

type_synonym pydict = "(string \<times> json) list"

text \<open>
  A raised exception, as far as the \<open>except\<close> clauses of the program can tell exceptions
  apart: the classes it is an instance of, and \<open>str(e)\<close>.
\<close>

record pyexn =
  is_Exception :: bool
  is_Timeout :: bool
  is_ConnectionError :: bool
  is_JSONDecodeError :: bool
  str_e :: string

definition plain_exception :: "string \<Rightarrow> pyexn" where
  "plain_exception msg =
     \<lparr>is_Exception = True, is_Timeout = False, is_ConnectionError = False,
      is_JSONDecodeError = False, str_e = msg\<rparr>"

definition KeyError :: "string \<Rightarrow> pyexn" where
  "KeyError k = plain_exception ([CHR 0x27] @ k @ [CHR 0x27])"

definition getitem :: "pydict \<Rightarrow> string \<Rightarrow> pyexn + json" where
  "getitem d k = (case map_of d k of None \<Rightarrow> Inl (KeyError k) | Some v \<Rightarrow> Inr v)"

definition contains :: "pydict \<Rightarrow> string \<Rightarrow> bool" where
  "contains d k = (map_of d k \<noteq> None)"

fun truthy :: "json \<Rightarrow> bool" where
  "truthy JNull = False"
| "truthy (JBool b) = b"
| "truthy (JInt n) = (n \<noteq> 0)"
| "truthy (JFloat (Finite s m e)) = (m \<noteq> 0)"
| "truthy (JFloat (Infinity s)) = True"
| "truthy (JFloat NaN) = True"
| "truthy (JStr s) = (s \<noteq> [])"
| "truthy (JList xs) = (xs \<noteq> [])"
| "truthy (JDict d) = (d \<noteq> [])"

section \<open>Formatting\<close>

definition digit_char :: "nat \<Rightarrow> char" where
  "digit_char n = ''0123456789'' ! n"

fun str_nat :: "nat \<Rightarrow> string" where
  "str_nat n = (if n < 10 then [digit_char n] else str_nat (n div 10) @ [digit_char (n mod 10)])"

declare str_nat.simps [simp del]

definition str_int :: "int \<Rightarrow> string" where
  "str_int i = (if i < 0 then ''-'' @ str_nat (nat (- i)) else str_nat (nat i))"

text \<open>\<open>num / den\<close> rounded to the nearest natural number, a tie going to the even one.\<close>

definition round_half_even :: "nat \<Rightarrow> nat \<Rightarrow> nat" where
  "round_half_even num den =
     (let q = num div den; r = num mod den
      in if 2 * r < den then q
         else if den < 2 * r then q + 1
         else if even q then q else q + 1)"

definition zero_pad :: "nat \<Rightarrow> string \<Rightarrow> string" where
  "zero_pad w s = replicate (w - length s) (CHR ''0'') @ s"

text \<open>
  \<open>format(x, '.<d>f')\<close> for a float: the exact value, correctly rounded to \<open>d\<close> decimals.
\<close>

fun format_f :: "nat \<Rightarrow> pyfloat \<Rightarrow> string" where
  "format_f d NaN = ''nan''"
| "format_f d (Infinity s) = (if s then ''-inf'' else ''inf'')"
| "format_f d (Finite s m e) =
     (let n = (if 0 \<le> e then m * 2 ^ nat e * 10 ^ d
               else round_half_even (m * 10 ^ d) (2 ^ nat (- e)))
      in (if s then ''-'' else '''') @ str_nat (n div 10 ^ d) @
         (if d = 0 then '''' else ''.'' @ zero_pad d (str_nat (n mod 10 ^ d))))"

declare format_f.simps [simp del]

text \<open>
  \<open>float(i)\<close> for an \<open>int\<close>: exact up to 53 bits, rounded to 53 bits (ties to even)
  above, \<open>OverflowError\<close> when the rounded value does not fit a double.
\<close>

definition int_to_float :: "int \<Rightarrow> pyexn + pyfloat" where
  "int_to_float i =
     (let a = nat \<bar>i\<bar>; l = floorlog 2 a
      in if l \<le> 53 then Inr (Finite (i < 0) a 0)
         else let k = l - 53; q = round_half_even a (2 ^ k)
              in if 2 ^ 1024 \<le> q * 2 ^ k
                 then Inl (plain_exception ''int too large to convert to float'')
                 else Inr (Finite (i < 0) q (int k)))"

text \<open>
  The replacement field \<open>{v:.<d>f}\<close> of an f-string: \<open>format(v, '.<d>f')\<close>, which
  raises for every value that is not a number.
\<close>

fun format_spec_f :: "nat \<Rightarrow> json \<Rightarrow> pyexn + string" where
  "format_spec_f d (JFloat x) = Inr (format_f d x)"
| "format_spec_f d (JInt i) =
     (case int_to_float i of Inl e \<Rightarrow> Inl e | Inr x \<Rightarrow> Inr (format_f d x))"
| "format_spec_f d (JBool b) = Inr (format_f d (Finite False (if b then 1 else 0) 0))"
| "format_spec_f d (JStr s) =
     Inl (plain_exception (''Unknown format code 'f' for object of type 'str'' @ [CHR 0x27]))"
| "format_spec_f d JNull =
     Inl (plain_exception ''unsupported format string passed to NoneType.__format__'')"
| "format_spec_f d (JList xs) =
     Inl (plain_exception ''unsupported format string passed to list.__format__'')"
| "format_spec_f d (JDict kvs) =
     Inl (plain_exception ''unsupported format string passed to dict.__format__'')"

text \<open>
  The replacement field \<open>{v}\<close>: \<open>str(v)\<close>. The text of a float, a list and a dict is
  \<open>repr\<close>, which is taken from the environment.
\<close>

fun py_str :: "(json \<Rightarrow> string) \<Rightarrow> json \<Rightarrow> string" where
  "py_str R (JStr s) = s"
| "py_str R JNull = ''None''"
| "py_str R (JBool b) = (if b then ''True'' else ''False'')"
| "py_str R (JInt i) = str_int i"
| "py_str R v = R v"

section \<open>The environment and the state\<close>

text \<open>
  What \<open>requests.get\<close> hands back: \<open>response.status_code\<close>,
  \<open>response.elapsed.total_seconds()\<close>, \<open>response.text\<close>, and what the call
  \<open>response.json()\<close> does (\<open>Inl\<close>: the exception it raises).
\<close>

record response =
  status_code :: int
  elapsed_total_seconds :: pyfloat
  response_text :: string
  response_json :: "pyexn + json"

text \<open>
  Everything outside the program. The clock is indexed by the number of times it has
  been read, the network by the number of requests sent so far and the URL.
  \<open>now_str E n\<close> is \<open>str(datetime.datetime.now())\<close> and \<open>now_isoformat E n\<close> is
  \<open>datetime.datetime.now().isoformat()\<close> at the \<open>n\<close>-th reading.
\<close>

record env =
  now_str :: "nat \<Rightarrow> string"
  now_isoformat :: "nat \<Rightarrow> string"
  requests_get :: "nat \<Rightarrow> string \<Rightarrow> pyexn + response"
  repr :: "json \<Rightarrow> string"

text \<open>
  The state the program changes: the clock readings and requests made so far, and the
  lines written to standard output, one string for each call of \<open>print\<close>.
  Here \<open>print\<close> writes its line and does not fail; what happens when it does is
  in the section on a standard output that can fail.
\<close>

record world =
  clock_reads :: nat
  requests_sent :: nat
  stdout :: "string list"

definition print :: "string \<Rightarrow> world \<Rightarrow> world" where
  "print s w = w\<lparr>stdout := stdout w @ [s]\<rparr>"

definition tick :: "world \<Rightarrow> world" where
  "tick w = w\<lparr>clock_reads := Suc (clock_reads w)\<rparr>"

definition sent :: "world \<Rightarrow> world" where
  "sent w = w\<lparr>requests_sent := Suc (requests_sent w)\<rparr>"

text \<open>The non-ASCII characters of the messages, in UTF-8.\<close>

definition check_mark :: string where
  "check_mark = [CHR 0xE2, CHR 0x9C, CHR 0x85]"

definition warning_sign :: string where
  "warning_sign = [CHR 0xE2, CHR 0x9A, CHR 0xA0, CHR 0xEF, CHR 0xB8, CHR 0x8F]"

definition cross_mark :: string where
  "cross_mark = [CHR 0xE2, CHR 0x9D, CHR 0x8C]"

definition party_popper :: string where
  "party_popper = [CHR 0xF0, CHR 0x9F, CHR 0x8E, CHR 0x89]"

section \<open>ping_server\<close>

text \<open>
  Lines 41 to 56: the report of a completed exchange, and \<open>return response_info\<close>.
  Formatting the uptime is the one step here that can raise.
\<close>

definition print_results ::
  "env \<Rightarrow> string \<Rightarrow> response \<Rightarrow> pydict \<Rightarrow> world \<Rightarrow> (pyexn + pydict) \<times> world" where
  "print_results E server_name resp response_info w =
     (if status_code resp = 200 then
        let w1 = print (check_mark @ '' '' @ server_name @ '' is alive (Status: '' @
                        str_int (status_code resp) @ '')'') w
        in case getitem response_info ''response_time'' of
             Inl e \<Rightarrow> (Inl e, w1)
           | Inr t \<Rightarrow>
        (case format_spec_f 3 t of
             Inl e \<Rightarrow> (Inl e, w1)
           | Inr ts \<Rightarrow>
        let w2 = print (''   Response time: '' @ ts @ ''s'') w1
        in case map_of response_info ''response_data'' of
             Some (JDict data) \<Rightarrow>
               let w3 = (case map_of data ''message'' of
                           Some m \<Rightarrow> print (''   Message: '' @ py_str (repr E) m) w2
                         | None \<Rightarrow> w2)
               in (case map_of data ''uptime'' of
                     Some u \<Rightarrow>
                       (case format_spec_f 1 u of
                          Inl e \<Rightarrow> (Inl e, w3)
                        | Inr us \<Rightarrow> (Inr response_info, print (''   Uptime: '' @ us @ ''s'') w3))
                   | None \<Rightarrow> (Inr response_info, w3))
           | _ \<Rightarrow> (Inr response_info, w2))
      else
        (Inr response_info,
         print (warning_sign @ '' '' @ server_name @ '' returned unexpected status code: '' @
                str_int (status_code resp)) w))"

text \<open>
  Lines 19 to 56: the body of the \<open>try\<close>. \<open>Inl e\<close> is the exception \<open>e\<close> leaving
  the body, with the state as it was when \<open>e\<close> was raised.
\<close>

definition ping_server_try ::
  "env \<Rightarrow> string \<Rightarrow> string \<Rightarrow> world \<Rightarrow> (pyexn + pydict) \<times> world" where
  "ping_server_try E url server_name w =
     (let w1 = print (now_str E (clock_reads w) @ '': Pinging '' @ server_name @ '' at '' @ url)
                 (tick w)
      in case requests_get E (requests_sent w1) url of
           Inl e \<Rightarrow> (Inl e, sent w1)
         | Inr resp \<Rightarrow>
             let w2 = sent w1;
                 response_info =
                   [(''server'', JStr server_name),
                    (''url'', JStr url),
                    (''status_code'', JInt (status_code resp)),
                    (''response_time'', JFloat (elapsed_total_seconds resp)),
                    (''timestamp'', JStr (now_isoformat E (clock_reads w2))),
                    (''success'', JBool (status_code resp = 200))];
                 w3 = tick w2
             in case response_json resp of
                  Inr response_data \<Rightarrow>
                    print_results E server_name resp
                      (AList.update ''response_data'' response_data response_info) w3
                | Inl e \<Rightarrow>
                    if is_JSONDecodeError e
                    then print_results E server_name resp
                           (AList.update ''response_data'' (JStr (response_text resp))
                              response_info) w3
                    else (Inl e, w3))"

text \<open>The dictionary the three handlers return (lines 61-67, 72-78, 83-89).\<close>

definition error_info :: "string \<Rightarrow> string \<Rightarrow> string \<Rightarrow> string \<Rightarrow> pydict" where
  "error_info server_name url err timestamp =
     [(''server'', JStr server_name),
      (''url'', JStr url),
      (''error'', JStr err),
      (''timestamp'', JStr timestamp),
      (''success'', JBool False)]"

text \<open>
  Lines 18 to 89. The handlers are tried in the order they are written; an exception
  that none of them matches leaves \<open>ping_server\<close>.
\<close>

definition ping_server ::
  "env \<Rightarrow> string \<Rightarrow> string \<Rightarrow> world \<Rightarrow> (pyexn + pydict) \<times> world" where
  "ping_server E url server_name w =
     (case ping_server_try E url server_name w of
        (Inr response_info, w') \<Rightarrow> (Inr response_info, w')
      | (Inl e, w') \<Rightarrow>
          if is_Timeout e then
            let w1 = print (cross_mark @ '' '' @ server_name @
                            '' request timed out after 30 seconds'') w'
            in (Inr (error_info server_name url ''timeout'' (now_isoformat E (clock_reads w1))),
                tick w1)
          else if is_ConnectionError e then
            let w1 = print (cross_mark @ '' '' @ server_name @
                            '' connection failed - server may be down'') w'
            in (Inr (error_info server_name url ''connection_error''
                       (now_isoformat E (clock_reads w1))),
                tick w1)
          else if is_Exception e then
            let w1 = print (cross_mark @ '' '' @ server_name @ '' error: '' @ str_e e) w'
            in (Inr (error_info server_name url (str_e e) (now_isoformat E (clock_reads w1))),
                tick w1)
          else (Inl e, w'))"

section \<open>ping_all_servers\<close>

record server =
  srv_name :: string
  srv_url :: string

definition servers :: "server list" where
  "servers =
     [\<lparr>srv_name = ''Node.js API Server'', srv_url = ''https://make-it-rag.onrender.com/ping''\<rparr>,
      \<lparr>srv_name = ''Python AI Server'', srv_url = ''https://make-it-rag-1.onrender.com/ping''\<rparr>]"

definition rule_line :: string where
  "rule_line = replicate 60 (CHR ''='')"

text \<open>Lines 114 to 117: the loop, with \<open>results\<close> as it stands before each round.\<close>

fun ping_each ::
  "env \<Rightarrow> server list \<Rightarrow> pydict list \<Rightarrow> world \<Rightarrow> (pyexn + pydict list) \<times> world" where
  "ping_each E [] results w = (Inr results, w)"
| "ping_each E (s # rest) results w =
     (case ping_server E (srv_url s) (srv_name s) w of
        (Inl e, w') \<Rightarrow> (Inl e, w')
      | (Inr result, w') \<Rightarrow> ping_each E rest (results @ [result]) (print [] w'))"

text \<open>Line 124: \<open>sum(1 for r in results if r["success"])\<close>.\<close>

fun successful :: "pydict list \<Rightarrow> pyexn + nat" where
  "successful [] = Inr 0"
| "successful (r # rs) =
     (case getitem r ''success'' of
        Inl e \<Rightarrow> Inl e
      | Inr v \<Rightarrow>
          (case successful rs of
             Inl e \<Rightarrow> Inl e
           | Inr n \<Rightarrow> Inr (if truthy v then Suc n else n)))"

text \<open>Lines 107 to 109.\<close>

definition banner :: "world \<Rightarrow> world" where
  "banner w = print rule_line (print ''SERVER PING MONITORING'' (print rule_line w))"

text \<open>
  Lines 107 to 134, for any list of servers: the body of \<open>ping_all_servers\<close> with its
  local \<open>servers\<close> as an argument.
\<close>

definition run_servers :: "env \<Rightarrow> server list \<Rightarrow> world \<Rightarrow> (pyexn + int) \<times> world" where
  "run_servers E svs w =
     (case ping_each E svs [] (banner w) of
        (Inl e, w1) \<Rightarrow> (Inl e, w1)
      | (Inr results, w1) \<Rightarrow>
          let w2 = print rule_line (print ''SUMMARY'' (print rule_line w1))
          in case successful results of
               Inl e \<Rightarrow> (Inl e, w2)
             | Inr successful_pings \<Rightarrow>
                 let total_servers = length results;
                     w3 = print (''Servers responding: '' @ str_nat successful_pings @ ''/'' @
                                 str_nat total_servers) w2
                 in if successful_pings = total_servers
                    then (Inr 0, print (party_popper @ '' All servers are healthy!'') w3)
                    else (Inr 1, print (warning_sign @ '' Some servers are not responding'') w3))"

definition ping_all_servers :: "env \<Rightarrow> world \<Rightarrow> (pyexn + int) \<times> world" where
  "ping_all_servers E w = run_servers E servers w"

text \<open>
  Lines 25 to 39: \<open>response_info\<close> as it is returned for a response \<open>r\<close> whose body
  gave \<open>v\<close>, when the probe started in state \<open>w\<close>.
\<close>

definition response_info_of ::
  "env \<Rightarrow> string \<Rightarrow> string \<Rightarrow> world \<Rightarrow> response \<Rightarrow> json \<Rightarrow> pydict" where
  "response_info_of E url nm w r v =
     [(''server'', JStr nm), (''url'', JStr url), (''status_code'', JInt (status_code r)),
      (''response_time'', JFloat (elapsed_total_seconds r)),
      (''timestamp'', JStr (now_isoformat E (Suc (clock_reads w)))),
      (''success'', JBool (status_code r = 200)), (''response_data'', v)]"

text \<open>Line 124: the filter \<open>if r["success"]\<close> of the count, for one result.\<close>

definition is_up :: "pydict \<Rightarrow> bool" where
  "is_up r = (case getitem r ''success'' of Inl e \<Rightarrow> False | Inr v \<Rightarrow> truthy v)"

section \<open>ping_server with a standard output that can fail\<close>

text \<open>
  \<open>print\<close> raises when the standard output cannot take the line
  (\<open>UnicodeEncodeError\<close> when its encoding lacks a character, \<open>OSError\<close> when it is
  closed). A writer says what the standard output does with a line: \<open>None\<close> when it
  is written, \<open>Some e\<close> when \<open>print\<close> raises \<open>e\<close>.
\<close>

type_synonym writer = "string \<Rightarrow> pyexn option"

text \<open>\<open>print(s)\<close>, then \<open>k\<close>; when \<open>print\<close> raises, the exception is the outcome.\<close>

definition printing ::
  "writer \<Rightarrow> string \<Rightarrow> world \<Rightarrow> (world \<Rightarrow> (pyexn + 'a) \<times> world) \<Rightarrow> (pyexn + 'a) \<times> world" where
  "printing wr s w k = (case wr s of Some e \<Rightarrow> (Inl e, w) | None \<Rightarrow> k (print s w))"

text \<open>Lines 41 to 56 again, each \<open>print\<close> going through the writer.\<close>

definition print_results_io ::
  "writer \<Rightarrow> env \<Rightarrow> string \<Rightarrow> response \<Rightarrow> pydict \<Rightarrow> world \<Rightarrow> (pyexn + pydict) \<times> world" where
  "print_results_io wr E server_name resp response_info w =
     (if status_code resp = 200 then
        printing wr (check_mark @ '' '' @ server_name @ '' is alive (Status: '' @
                     str_int (status_code resp) @ '')'') w (\<lambda>w1.
        case getitem response_info ''response_time'' of
          Inl e \<Rightarrow> (Inl e, w1)
        | Inr t \<Rightarrow>
        (case format_spec_f 3 t of
          Inl e \<Rightarrow> (Inl e, w1)
        | Inr ts \<Rightarrow>
        printing wr (''   Response time: '' @ ts @ ''s'') w1 (\<lambda>w2.
        case map_of response_info ''response_data'' of
          Some (JDict data) \<Rightarrow>
            (case map_of data ''message'' of
               Some m \<Rightarrow> printing wr (''   Message: '' @ py_str (repr E) m) w2
             | None \<Rightarrow> (\<lambda>k. k w2)) (\<lambda>w3.
            case map_of data ''uptime'' of
              Some u \<Rightarrow>
                (case format_spec_f 1 u of
                   Inl e \<Rightarrow> (Inl e, w3)
                 | Inr us \<Rightarrow>
                     printing wr (''   Uptime: '' @ us @ ''s'') w3 (\<lambda>w4. (Inr response_info, w4)))
            | None \<Rightarrow> (Inr response_info, w3))
        | _ \<Rightarrow> (Inr response_info, w2))))
      else
        printing wr (warning_sign @ '' '' @ server_name @ '' returned unexpected status code: '' @
                     str_int (status_code resp)) w (\<lambda>w1. (Inr response_info, w1)))"

text \<open>
  Lines 19 to 56 again. The \<open>print\<close> of line 19 is inside the \<open>try\<close>, so what it
  raises goes to the handlers like any other exception of the body.
\<close>

definition ping_server_try_io ::
  "writer \<Rightarrow> env \<Rightarrow> string \<Rightarrow> string \<Rightarrow> world \<Rightarrow> (pyexn + pydict) \<times> world" where
  "ping_server_try_io wr E url server_name w =
     printing wr (now_str E (clock_reads w) @ '': Pinging '' @ server_name @ '' at '' @ url)
       (tick w) (\<lambda>w1.
     case requests_get E (requests_sent w1) url of
       Inl e \<Rightarrow> (Inl e, sent w1)
     | Inr resp \<Rightarrow>
         let w2 = sent w1;
             response_info =
               [(''server'', JStr server_name),
                (''url'', JStr url),
                (''status_code'', JInt (status_code resp)),
                (''response_time'', JFloat (elapsed_total_seconds resp)),
                (''timestamp'', JStr (now_isoformat E (clock_reads w2))),
                (''success'', JBool (status_code resp = 200))];
             w3 = tick w2
         in case response_json resp of
              Inr response_data \<Rightarrow>
                print_results_io wr E server_name resp
                  (AList.update ''response_data'' response_data response_info) w3
            | Inl e \<Rightarrow>
                if is_JSONDecodeError e
                then print_results_io wr E server_name resp
                       (AList.update ''response_data'' (JStr (response_text resp))
                          response_info) w3
                else (Inl e, w3))"

text \<open>
  Lines 18 to 89 again. The \<open>print\<close> of lines 60, 71 and 82 is inside an \<open>except\<close>
  clause, where no handler of this \<open>try\<close> applies any more: what it raises leaves
  \<open>ping_server\<close>.
\<close>

definition ping_server_io ::
  "writer \<Rightarrow> env \<Rightarrow> string \<Rightarrow> string \<Rightarrow> world \<Rightarrow> (pyexn + pydict) \<times> world" where
  "ping_server_io wr E url server_name w =
     (case ping_server_try_io wr E url server_name w of
        (Inr response_info, w') \<Rightarrow> (Inr response_info, w')
      | (Inl e, w') \<Rightarrow>
          if is_Timeout e then
            printing wr (cross_mark @ '' '' @ server_name @
                         '' request timed out after 30 seconds'') w' (\<lambda>w1.
            (Inr (error_info server_name url ''timeout'' (now_isoformat E (clock_reads w1))),
             tick w1))
          else if is_ConnectionError e then
            printing wr (cross_mark @ '' '' @ server_name @
                         '' connection failed - server may be down'') w' (\<lambda>w1.
            (Inr (error_info server_name url ''connection_error''
                    (now_isoformat E (clock_reads w1))),
             tick w1))
          else if is_Exception e then
            printing wr (cross_mark @ '' '' @ server_name @ '' error: '' @ str_e e) w' (\<lambda>w1.
            (Inr (error_info server_name url (str_e e) (now_isoformat E (clock_reads w1))),
             tick w1))
          else (Inl e, w'))"

section \<open>The loop in the words of the specification\<close>



section \<open>Sample exceptions, responses and environments\<close>

text \<open>
  \<open>requests.exceptions.ReadTimeout\<close>, a \<open>json.JSONDecodeError\<close>, the
  \<open>RecursionError\<close> that \<open>json\<close> raises on a body nested too deep, and the
  \<open>UnicodeEncodeError\<close> of an ASCII standard output given the cross mark.
\<close>

definition Timeout_exn :: pyexn where
  "Timeout_exn = \<lparr>is_Exception = True, is_Timeout = True, is_ConnectionError = False,
                  is_JSONDecodeError = False, str_e = ''Read timed out. (read timeout=30)''\<rparr>"

definition JSONDecodeError_exn :: pyexn where
  "JSONDecodeError_exn =
     \<lparr>is_Exception = True, is_Timeout = False, is_ConnectionError = False,
      is_JSONDecodeError = True, str_e = ''Expecting value: line 1 column 1 (char 0)''\<rparr>"

definition RecursionError_exn :: pyexn where
  "RecursionError_exn =
     plain_exception
       ''maximum recursion depth exceeded while decoding a JSON array from a unicode string''"

definition UnicodeEncodeError_exn :: pyexn where
  "UnicodeEncodeError_exn =
     plain_exception ([CHR 0x27] @ ''ascii' codec can't encode character '' @
       [CHR 0x27, CHR 0x5C] @ ''u274c' in position 0: ordinal not in range(128)'')"

text \<open>
  A standard output whose encoding is ASCII: a line with a byte above 127 is refused.
  The text of the exception is the one for a line that begins with the cross mark.
\<close>

definition is_ascii :: "char \<Rightarrow> bool" where
  "is_ascii c = (of_char c < (128 :: nat))"

definition ascii_stdout :: writer where
  "ascii_stdout s = (if list_all is_ascii s then None else Some UnicodeEncodeError_exn)"

text \<open>The double 0.25.\<close>

definition quarter_second :: pyfloat where
  "quarter_second = Finite False 1 (- 2)"

text \<open>An environment with the network \<open>net\<close> and a clock that stands still.\<close>

definition fixed_env :: "(nat \<Rightarrow> string \<Rightarrow> pyexn + response) \<Rightarrow> env" where
  "fixed_env net =
     \<lparr>now_str = (\<lambda>n. ''2025-01-01 12:00:00.000000''),
      now_isoformat = (\<lambda>n. ''2025-01-01T12:00:00.000000''),
      requests_get = net,
      repr = (\<lambda>v. [])\<rparr>"

definition world0 :: world where
  "world0 = \<lparr>clock_reads = 0, requests_sent = 0, stdout = []\<rparr>"

text \<open>
  The body \<open>{"message": "ok", "uptime": 12.34}\<close> as \<open>response.json()\<close> returns it.
  The double nearest to 12.34 is \<open>6946802425218990 * 2^-49\<close>.
\<close>

definition ok_body :: json where
  "ok_body = JDict [(''message'', JStr ''ok''),
                    (''uptime'', JFloat (Finite False 6946802425218990 (- 49)))]"

definition ok_env :: env where
  "ok_env =
     fixed_env (\<lambda>n u. Inr \<lparr>status_code = 200, elapsed_total_seconds = quarter_second,
                             response_text = ''{\"message\": \"ok\", \"uptime\": 12.34}'',
                             response_json = Inr ok_body\<rparr>)"

text \<open>Every request is answered 200 with the body \<open>{"uptime": "5 days"}\<close>.\<close>

definition uptime_text_env :: env where
  "uptime_text_env =
     fixed_env (\<lambda>n u. Inr \<lparr>status_code = 200, elapsed_total_seconds = quarter_second,
                             response_text = ''{\"uptime\": \"5 days\"}'',
                             response_json = Inr (JDict [(''uptime'', JStr ''5 days'')])\<rparr>)"

definition timeout_env :: env where
  "timeout_env = fixed_env (\<lambda>n u. Inl Timeout_exn)"

text \<open>
  Every request is answered with the given status and a body of 100000 opening
  brackets, on which \<open>response.json()\<close> raises \<open>RecursionError\<close>.
\<close>

definition deep_body_env :: "int \<Rightarrow> env" where
  "deep_body_env code =
     fixed_env (\<lambda>n u. Inr \<lparr>status_code = code, elapsed_total_seconds = quarter_second,
                             response_text = replicate 100000 (CHR ''[''),
                             response_json = Inl RecursionError_exn\<rparr>)"

text \<open>The first request is answered 200 with the plain text \<open>pong\<close>, every later one times out.\<close>

definition one_down_env :: env where
  "one_down_env =
     fixed_env (\<lambda>n u. if n = 0
        then Inr \<lparr>status_code = 200, elapsed_total_seconds = quarter_second,
                  response_text = ''pong'', response_json = Inl JSONDecodeError_exn\<rparr>
        else Inl Timeout_exn)"


section \<open>Evaluation\<close>

lemma str_nat_digit: "n < 10 \<Longrightarrow> str_nat n = [digit_char n]"
  by (subst str_nat.simps) simp

lemma str_nat_step: "10 \<le> n \<Longrightarrow> str_nat n = str_nat (n div 10) @ [digit_char (n mod 10)]"
  by (subst str_nat.simps) simp

lemmas str_eval = str_nat_digit str_nat_step digit_char_def str_int_def zero_pad_def

lemma str_nat_0: "str_nat 0 = ''0''"
  by (simp add: str_eval)

lemma str_int_200: "str_int 200 = ''200''"
  by (simp add: str_eval)

lemma format_uptime: "format_f (Suc 0) (Finite False 6946802425218990 (- 49)) = ''12.3''"
  by (simp add: format_f.simps round_half_even_def Let_def str_eval)

lemma format_quarter: "format_f 3 (Finite False (Suc 0) (- 2)) = ''0.250''"
  by (simp add: format_f.simps round_half_even_def Let_def str_eval)

lemmas env_defs = fixed_env_def world0_def quarter_second_def Timeout_exn_def
  JSONDecodeError_exn_def

lemmas ping_defs = ping_server_def ping_server_try_def print_results_def getitem_def
  error_info_def plain_exception_def

lemma world_print [simp]:
  "stdout (print s w) = stdout w @ [s]"
  "clock_reads (print s w) = clock_reads w"
  "requests_sent (print s w) = requests_sent w"
  by (simp_all add: print_def)

lemma world_tick [simp]:
  "stdout (tick w) = stdout w"
  "clock_reads (tick w) = Suc (clock_reads w)"
  "requests_sent (tick w) = requests_sent w"
  by (simp_all add: tick_def)

lemma world_sent [simp]:
  "stdout (sent w) = stdout w"
  "clock_reads (sent w) = clock_reads w"
  "requests_sent (sent w) = Suc (requests_sent w)"
  by (simp_all add: sent_def)

section \<open>What leaves the try block\<close>

text \<open>Formatting raises ordinary exceptions only (\<open>ValueError\<close>, \<open>TypeError\<close>, \<open>OverflowError\<close>).\<close>

lemma int_to_float_Inl: "int_to_float i = Inl e \<Longrightarrow> \<exists>m. e = plain_exception m"
  by (auto simp: int_to_float_def Let_def split: if_splits)

lemma format_spec_f_Inl: "format_spec_f d v = Inl e \<Longrightarrow> \<exists>m. e = plain_exception m"
  by (cases v) (auto split: sum.splits dest: int_to_float_Inl)

lemma print_results_Inr:
  "print_results E nm r info w = (Inr d, w') \<Longrightarrow> d = info"
  by (auto simp: print_results_def Let_def
      split: if_splits sum.splits option.splits json.splits)

lemma print_results_Inl:
  "print_results E nm r info w = (Inl e, w') \<Longrightarrow>
   status_code r = 200 \<and> (\<exists>m. e = plain_exception m)"
  by (auto simp: print_results_def Let_def getitem_def KeyError_def
      split: if_splits sum.splits option.splits json.splits dest: format_spec_f_Inl)

lemma print_results_requests:
  "print_results E nm r info w = (x, w') \<Longrightarrow>
   requests_sent w' = requests_sent w \<and> clock_reads w' = clock_reads w"
  by (auto simp: print_results_def Let_def
      split: if_splits sum.splits option.splits json.splits)

lemma ping_server_try_Inr:
  assumes "ping_server_try E url nm w = (Inr d, w')"
  shows "\<exists>r v. requests_get E (requests_sent w) url = Inr r \<and>
           (response_json r = Inr v \<or>
            (\<exists>e. response_json r = Inl e \<and> is_JSONDecodeError e \<and> v = JStr (response_text r))) \<and>
           d = response_info_of E url nm w r v"
  using assms
  by (auto simp: ping_server_try_def Let_def response_info_of_def
      split: sum.splits if_splits dest!: print_results_Inr)

lemma ping_server_try_Inl:
  assumes "ping_server_try E url nm w = (Inl e, w')"
  shows "requests_get E (requests_sent w) url = Inl e \<or>
         (\<exists>r. requests_get E (requests_sent w) url = Inr r \<and>
              ((response_json r = Inl e \<and> \<not> is_JSONDecodeError e) \<or>
               (status_code r = 200 \<and> (\<exists>m. e = plain_exception m))))"
  using assms
  by (auto simp: ping_server_try_def Let_def
      split: sum.splits if_splits dest!: print_results_Inl)

lemma ping_server_try_counters:
  assumes "ping_server_try E url nm w = (x, w')"
  shows "requests_sent w' = Suc (requests_sent w)"
  using assms
  by (auto simp: ping_server_try_def Let_def
      split: sum.splits if_splits dest!: print_results_requests)



section \<open>What ping_server returns\<close>

lemma ping_server_Inl:
  assumes "ping_server E url nm w = (Inl e, w')"
  shows "\<not> is_Exception e \<and> \<not> is_Timeout e \<and> \<not> is_ConnectionError e \<and>
         (requests_get E (requests_sent w) url = Inl e \<or>
          (\<exists>r. requests_get E (requests_sent w) url = Inr r \<and> response_json r = Inl e))"
proof -
  obtain x w1 where t: "ping_server_try E url nm w = (x, w1)"
    by (cases "ping_server_try E url nm w")
  with assms have x: "x = Inl e"
    and h: "\<not> is_Exception e" "\<not> is_Timeout e" "\<not> is_ConnectionError e"
    by (auto simp: ping_server_def Let_def split: sum.splits if_splits)
  from ping_server_try_Inl [OF t [unfolded x]] h show ?thesis
    by (auto simp: plain_exception_def)
qed

lemma ping_server_Inr:
  assumes "ping_server E url nm w = (Inr d, w')"
  shows "(\<exists>r v. requests_get E (requests_sent w) url = Inr r \<and>
            d = response_info_of E url nm w r v) \<or>
         (\<exists>err ts. d = error_info nm url err ts)"
proof -
  obtain x w1 where t: "ping_server_try E url nm w = (x, w1)"
    by (cases "ping_server_try E url nm w")
  show ?thesis
  proof (cases x)
    case (Inl e)
    with assms t show ?thesis
      by (auto simp: ping_server_def Let_def split: if_splits)
  next
    case (Inr d')
    with assms t have "d' = d"
      by (simp add: ping_server_def)
    with t Inr ping_server_try_Inr [of E url nm w d w1] show ?thesis
      by auto
  qed
qed

lemma ping_server_requests:
  assumes "ping_server E url nm w = (x, w')"
  shows "requests_sent w' = Suc (requests_sent w)"
proof -
  obtain y w1 where t: "ping_server_try E url nm w = (y, w1)"
    by (cases "ping_server_try E url nm w")
  from ping_server_try_counters [OF t] assms t show ?thesis
    by (auto simp: ping_server_def Let_def split: sum.splits if_splits)
qed

lemma ping_server_result_fields:
  assumes "ping_server E url nm w = (Inr d, w')"
  shows "map_of d ''server'' = Some (JStr nm) \<and> map_of d ''url'' = Some (JStr url) \<and>
         (\<exists>b. map_of d ''success'' = Some (JBool b))"
  using ping_server_Inr [OF assms]
  by (auto simp: response_info_of_def error_info_def)


lemma ok_probe:
  "ping_server ok_env ''https://example.org/ping'' ''Example'' world0 =
   (Inr [(''server'', JStr ''Example''), (''url'', JStr ''https://example.org/ping''),
         (''status_code'', JInt 200),
         (''response_time'', JFloat quarter_second),
         (''timestamp'', JStr ''2025-01-01T12:00:00.000000''),
         (''success'', JBool True),
         (''response_data'', ok_body)],
    \<lparr>clock_reads = 2, requests_sent = 1,
     stdout =
       [''2025-01-01 12:00:00.000000: Pinging Example at https://example.org/ping'',
        check_mark @ '' Example is alive (Status: 200)'',
        ''   Response time: 0.250s'',
        ''   Message: ok'',
        ''   Uptime: 12.3s'']\<rparr>)"
  by (simp add: ok_env_def ok_body_def env_defs ping_defs print_def tick_def sent_def
      str_int_200 format_quarter format_uptime)

text \<open>
  C1. The statement that \<open>success\<close> is true exactly when the request returned status
  200 in time fails on a 200 response whose JSON body has an \<open>uptime\<close> that is not a
  number: line 31 sets \<open>success\<close> to true and line 43 prints that the server is alive,
  then the format \<open>:.1f\<close> of line 52 raises \<open>ValueError\<close>, the handler of line 80
  catches it, and the dictionary returned has \<open>success\<close> false and an \<open>error\<close>.
\<close>

theorem alive_server_reported_failed:
  "ping_server uptime_text_env ''https://example.org/ping'' ''Example'' world0 =
   (Inr [(''server'', JStr ''Example''), (''url'', JStr ''https://example.org/ping''),
         (''error'', JStr (''Unknown format code 'f' for object of type 'str'' @ [CHR 0x27])),
         (''timestamp'', JStr ''2025-01-01T12:00:00.000000''),
         (''success'', JBool False)],
    \<lparr>clock_reads = 3, requests_sent = 1,
     stdout =
       [''2025-01-01 12:00:00.000000: Pinging Example at https://example.org/ping'',
        check_mark @ '' Example is alive (Status: 200)'',
        ''   Response time: 0.250s'',
        cross_mark @ '' Example error: Unknown format code 'f' for object of type 'str'' @
          [CHR 0x27]]\<rparr>)"
  by (simp add: uptime_text_env_def env_defs ping_defs print_def tick_def sent_def
      str_int_200 format_quarter)

section \<open>What a failing standard output changes\<close>

text \<open>With a standard output that takes every line, this is the \<open>ping_server\<close> above.\<close>

lemma printing_None: "printing (\<lambda>s. None) s w k = k (print s w)"
  by (simp add: printing_def)

lemma print_results_io_None:
  "print_results_io (\<lambda>s. None) E nm r info w = print_results E nm r info w"
  by (simp add: print_results_io_def print_results_def printing_None Let_def
      split: sum.splits option.splits json.splits)

lemma ping_server_try_io_None:
  "ping_server_try_io (\<lambda>s. None) E url nm w = ping_server_try E url nm w"
  by (simp add: ping_server_try_io_def ping_server_try_def printing_None print_results_io_None
      Let_def split: sum.splits)

lemma ping_server_io_None:
  "ping_server_io (\<lambda>s. None) E url nm w = ping_server E url nm w"
  by (simp add: ping_server_io_def ping_server_def printing_None ping_server_try_io_None
      Let_def split: prod.splits sum.splits)

lemma ascii_line: "ascii_stdout ''2025-01-01 12:00:00.000000: Pinging Example at https://example.org/ping'' = None"
  by (simp add: ascii_stdout_def is_ascii_def)

lemma cross_line: "ascii_stdout (cross_mark @ s) = Some UnicodeEncodeError_exn"
  by (simp add: ascii_stdout_def is_ascii_def cross_mark_def)

text \<open>
  C2. \<open>ping_server\<close> is to let no exception reach its caller. The three handlers
  catch what the body of the \<open>try\<close> raises, but each of them prints its line before
  it returns, and nothing catches what that \<open>print\<close> raises. With a standard output
  in ASCII and a request that times out, the handler of line 58 raises
  \<open>UnicodeEncodeError\<close> at line 60 on the cross mark, and that exception is what
  the caller of \<open>ping_server\<close> gets, in place of a result.
\<close>

theorem print_failure_leaves_ping_server:
  "ping_server_io ascii_stdout timeout_env ''https://example.org/ping'' ''Example'' world0 =
   (Inl UnicodeEncodeError_exn,
    \<lparr>clock_reads = 1, requests_sent = 1,
     stdout = [''2025-01-01 12:00:00.000000: Pinging Example at https://example.org/ping'']\<rparr>)"
  by (simp add: ping_server_io_def ping_server_try_io_def printing_def ascii_line cross_line
      timeout_env_def env_defs print_def tick_def sent_def)

section \<open>What ping_server returns, continued\<close>

text \<open>
  C4. An exception \<open>e\<close> that leaves the try block and that one of the three handlers
  matches gives exactly one failure dictionary, with \<open>success\<close> false: its \<open>error\<close> is
  \<open>timeout\<close> when \<open>e\<close> is a \<open>Timeout\<close>, \<open>connection_error\<close> when it is a
  \<open>ConnectionError\<close> and no \<open>Timeout\<close> (the handlers are tried in this order), and
  \<open>str(e)\<close> for any other \<open>Exception\<close>. The failure line printed says the same.
\<close>

theorem ping_server_classifies:
  assumes "ping_server_try E url server_name w = (Inl e, w1)"
      and "is_Timeout e \<or> is_ConnectionError e \<or> is_Exception e"
  shows "ping_server E url server_name w =
           (Inr [(''server'', JStr server_name), (''url'', JStr url),
                 (''error'', JStr (if is_Timeout e then ''timeout''
                                   else if is_ConnectionError e then ''connection_error''
                                   else str_e e)),
                 (''timestamp'', JStr (now_isoformat E (clock_reads w1))),
                 (''success'', JBool False)],
            tick (print (cross_mark @ '' '' @ server_name @
                          (if is_Timeout e then '' request timed out after 30 seconds''
                           else if is_ConnectionError e
                             then '' connection failed - server may be down''
                           else '' error: '' @ str_e e)) w1))"
  using assms by (auto simp: ping_server_def error_info_def Let_def)

theorem ping_server_classifies_witness:
  "ping_server timeout_env ''https://example.org/ping'' ''Example'' world0 =
     (Inr [(''server'', JStr ''Example''), (''url'', JStr ''https://example.org/ping''),
           (''error'', JStr ''timeout''),
           (''timestamp'', JStr ''2025-01-01T12:00:00.000000''),
           (''success'', JBool False)],
      \<lparr>clock_reads = 2, requests_sent = 1,
       stdout = [''2025-01-01 12:00:00.000000: Pinging Example at https://example.org/ping'',
                 cross_mark @ '' Example request timed out after 30 seconds'']\<rparr>)"
proof -
  have t: "ping_server_try timeout_env ''https://example.org/ping'' ''Example'' world0 =
             (Inl Timeout_exn,
              \<lparr>clock_reads = 1, requests_sent = 1,
               stdout = [''2025-01-01 12:00:00.000000: Pinging Example at https://example.org/ping'']\<rparr>)"
    by (simp add: timeout_env_def env_defs ping_server_try_def print_def tick_def sent_def)
  have k: "is_Timeout Timeout_exn \<or> is_ConnectionError Timeout_exn \<or> is_Exception Timeout_exn"
    by (simp add: Timeout_exn_def)
  show ?thesis
    using ping_server_classifies [OF t k]
    by (simp add: timeout_env_def env_defs print_def tick_def)
qed

text \<open>
  C5. A response with a status other than 200 is to give the dictionary of a completed
  exchange, never a failure. This holds when \<open>response.json()\<close> returns a value
  or raises \<open>json.JSONDecodeError\<close>, the one exception line 38 catches
  (\<open>non_200_is_completed\<close> below). Any other exception of \<open>response.json()\<close>
  goes to the handler of line 80: a 404 whose body is nested too deep for \<open>json\<close>
  comes back as a failure, with an \<open>error\<close> and no \<open>status_code\<close>.
\<close>

theorem not_found_reported_as_error:
  "ping_server (deep_body_env 404) ''https://example.org/ping'' ''Example'' world0 =
   (Inr [(''server'', JStr ''Example''), (''url'', JStr ''https://example.org/ping''),
         (''error'', JStr ''maximum recursion depth exceeded while decoding a JSON array from a unicode string''),
         (''timestamp'', JStr ''2025-01-01T12:00:00.000000''),
         (''success'', JBool False)],
    \<lparr>clock_reads = 3, requests_sent = 1,
     stdout =
       [''2025-01-01 12:00:00.000000: Pinging Example at https://example.org/ping'',
        cross_mark @ '' Example error: maximum recursion depth exceeded while decoding a JSON array from a unicode string'']\<rparr>)"
  by (simp add: deep_body_env_def RecursionError_exn_def env_defs ping_defs print_def tick_def
      sent_def)

text \<open>
  With a \<open>response.json()\<close> that returns or raises \<open>json.JSONDecodeError\<close>, a
  status other than 200 gives a completed exchange: \<open>status_code\<close> is there,
  \<open>success\<close> is false, there is no \<open>error\<close>, and the warning is printed.
\<close>

lemma non_200_is_completed:
  assumes "requests_get E (requests_sent w) url = Inr r"
      and "status_code r \<noteq> 200"
      and "case response_json r of Inl e \<Rightarrow> is_JSONDecodeError e | Inr v \<Rightarrow> True"
  shows "\<exists>d w'. ping_server E url server_name w = (Inr d, w') \<and>
           map_of d ''status_code'' = Some (JInt (status_code r)) \<and>
           map_of d ''success'' = Some (JBool False) \<and>
           map_of d ''error'' = None \<and>
           stdout w' = stdout w @
             [now_str E (clock_reads w) @ '': Pinging '' @ server_name @ '' at '' @ url,
              warning_sign @ '' '' @ server_name @ '' returned unexpected status code: '' @
                str_int (status_code r)]"
  using assms
  by (auto simp: ping_server_def ping_server_try_def print_results_def Let_def
      split: sum.splits)

text \<open>
  C6. A body that does not parse as JSON is to be kept as text in \<open>response_data\<close>.
  This holds when the failure to parse is a \<open>json.JSONDecodeError\<close>
  (\<open>non_json_body_is_kept_as_text\<close> below). When \<open>response.json()\<close> fails
  with another exception, line 38 does not catch it and the probe ends in the handler
  of line 80: a 200 whose body is nested too deep for \<open>json\<close> comes back as a
  failure, without \<open>response_data\<close>.
\<close>

theorem unparsed_body_reported_as_error:
  "ping_server (deep_body_env 200) ''https://example.org/ping'' ''Example'' world0 =
   (Inr [(''server'', JStr ''Example''), (''url'', JStr ''https://example.org/ping''),
         (''error'', JStr ''maximum recursion depth exceeded while decoding a JSON array from a unicode string''),
         (''timestamp'', JStr ''2025-01-01T12:00:00.000000''),
         (''success'', JBool False)],
    \<lparr>clock_reads = 3, requests_sent = 1,
     stdout =
       [''2025-01-01 12:00:00.000000: Pinging Example at https://example.org/ping'',
        cross_mark @ '' Example error: maximum recursion depth exceeded while decoding a JSON array from a unicode string'']\<rparr>)"
  by (simp add: deep_body_env_def RecursionError_exn_def env_defs ping_defs print_def tick_def
      sent_def)

text \<open>
  When \<open>response.json()\<close> raises \<open>json.JSONDecodeError\<close>, whatever the status,
  the dictionary of the completed exchange has \<open>response.text\<close> as its
  \<open>response_data\<close>.
\<close>

lemma non_json_body_is_kept_as_text:
  assumes "requests_get E (requests_sent w) url = Inr r"
      and "response_json r = Inl e"
      and "is_JSONDecodeError e"
  shows "\<exists>w'. ping_server E url server_name w =
           (Inr [(''server'', JStr server_name), (''url'', JStr url),
                 (''status_code'', JInt (status_code r)),
                 (''response_time'', JFloat (elapsed_total_seconds r)),
                 (''timestamp'', JStr (now_isoformat E (Suc (clock_reads w)))),
                 (''success'', JBool (status_code r = 200)),
                 (''response_data'', JStr (response_text r))], w')"
  using assms
  by (auto simp: ping_server_def ping_server_try_def print_results_def getitem_def Let_def)

text \<open>
  C8. A 200 response whose body decodes to \<open>{"message": "ok", "uptime": 12.34}\<close>:
  the dictionary returned has \<open>success\<close> true and that mapping as \<open>response_data\<close>,
  and the lines printed after the check mark line and the response time are
  \<open>Message: ok\<close> and \<open>Uptime: 12.3s\<close>, each indented by three spaces.
\<close>

theorem ok_response:
  "ping_server
     (E\<lparr>requests_get := \<lambda>n u. Inr \<lparr>status_code = 200, elapsed_total_seconds = t,
                                    response_text = b, response_json = Inr ok_body\<rparr>\<rparr>)
     url server_name w =
   (Inr [(''server'', JStr server_name), (''url'', JStr url), (''status_code'', JInt 200),
         (''response_time'', JFloat t),
         (''timestamp'', JStr (now_isoformat E (Suc (clock_reads w)))),
         (''success'', JBool True),
         (''response_data'', JDict [(''message'', JStr ''ok''),
            (''uptime'', JFloat (Finite False 6946802425218990 (- 49)))])],
    w\<lparr>clock_reads := Suc (Suc (clock_reads w)), requests_sent := Suc (requests_sent w),
      stdout := stdout w @
        [now_str E (clock_reads w) @ '': Pinging '' @ server_name @ '' at '' @ url,
         check_mark @ '' '' @ server_name @ '' is alive (Status: 200)'',
         ''   Response time: '' @ format_f 3 t @ ''s'',
         ''   Message: ok'',
         ''   Uptime: 12.3s'']\<rparr>)"
  by (simp add: ping_server_def ping_server_try_def print_results_def getitem_def print_def
      tick_def sent_def ok_body_def str_int_200 format_uptime)

text \<open>
  C9. A dictionary returned by \<open>ping_server\<close> has exactly one of the keys
  \<open>status_code\<close> and \<open>error\<close>, and its \<open>success\<close> is a boolean that is true only
  when \<open>status_code\<close> is there and is 200.
\<close>

theorem result_shape:
  assumes "ping_server E url server_name w = (Inr d, w')"
  shows "contains d ''status_code'' \<noteq> contains d ''error'' \<and>
         (\<exists>b. map_of d ''success'' = Some (JBool b) \<and>
              (b \<longrightarrow> map_of d ''status_code'' = Some (JInt 200)))"
  using ping_server_Inr [OF assms]
  by (auto simp: contains_def response_info_of_def error_info_def)

theorem result_shape_witness:
  "contains [(''server'', JStr ''Example''), (''url'', JStr ''https://example.org/ping''),
         (''status_code'', JInt 200),
         (''response_time'', JFloat quarter_second),
         (''timestamp'', JStr ''2025-01-01T12:00:00.000000''),
         (''success'', JBool True),
         (''response_data'', ok_body)] ''status_code'' \<and>
   \<not> contains [(''server'', JStr ''Example''), (''url'', JStr ''https://example.org/ping''),
         (''status_code'', JInt 200),
         (''response_time'', JFloat quarter_second),
         (''timestamp'', JStr ''2025-01-01T12:00:00.000000''),
         (''success'', JBool True),
         (''response_data'', ok_body)] ''error''"
  using result_shape [OF ok_probe]
  by (simp add: contains_def)

section \<open>What ping_all_servers does\<close>

lemma ping_each_Inr:
  "ping_each E svs acc w = (Inr results, w') \<Longrightarrow>
   \<exists>new. results = acc @ new \<and>
     map (\<lambda>d. (map_of d ''server'', map_of d ''url'')) new =
       map (\<lambda>s. (Some (JStr (srv_name s)), Some (JStr (srv_url s)))) svs \<and>
     (\<forall>d\<in>set new. \<exists>b. map_of d ''success'' = Some (JBool b)) \<and>
     requests_sent w' = requests_sent w + length svs"
proof (induction svs arbitrary: acc w)
  case Nil
  then show ?case by simp
next
  case (Cons s rest)
  obtain x w1 where p: "ping_server E (srv_url s) (srv_name s) w = (x, w1)"
    by (cases "ping_server E (srv_url s) (srv_name s) w")
  with Cons.prems obtain d where x: "x = Inr d"
    and rec: "ping_each E rest (acc @ [d]) (print [] w1) = (Inr results, w')"
    by (cases x) auto
  from Cons.IH [OF rec] obtain new where new: "results = (acc @ [d]) @ new"
    "map (\<lambda>d. (map_of d ''server'', map_of d ''url'')) new =
       map (\<lambda>s. (Some (JStr (srv_name s)), Some (JStr (srv_url s)))) rest"
    "\<forall>d\<in>set new. \<exists>b. map_of d ''success'' = Some (JBool b)"
    "requests_sent w' = requests_sent (print [] w1) + length rest"
    by blast
  from p x have f: "map_of d ''server'' = Some (JStr (srv_name s))"
    "map_of d ''url'' = Some (JStr (srv_url s))" "\<exists>b. map_of d ''success'' = Some (JBool b)"
    using ping_server_result_fields by blast+
  from p have r: "requests_sent w1 = Suc (requests_sent w)"
    by (rule ping_server_requests)
  show ?case
  proof (intro exI conjI)
    show "results = acc @ (d # new)" using new(1) by simp
    show "map (\<lambda>d. (map_of d ''server'', map_of d ''url'')) (d # new) =
       map (\<lambda>s. (Some (JStr (srv_name s)), Some (JStr (srv_url s)))) (s # rest)"
      using new(2) f by simp
    show "\<forall>d\<in>set (d # new). \<exists>b. map_of d ''success'' = Some (JBool b)"
      using new(3) f(3) by simp
    show "requests_sent w' = requests_sent w + length (s # rest)"
      using new(4) r by simp
  qed
qed

lemma ping_each_total:
  assumes "\<forall>n u e. requests_get E n u = Inl e \<longrightarrow> is_Exception e"
      and "\<forall>n u r e. requests_get E n u = Inr r \<longrightarrow> response_json r = Inl e \<longrightarrow> is_Exception e"
  shows "\<exists>results w'. ping_each E svs acc w = (Inr results, w')"
proof (induction svs arbitrary: acc w)
  case Nil
  show ?case by simp
next
  case (Cons s rest)
  obtain x w1 where p: "ping_server E (srv_url s) (srv_name s) w = (x, w1)"
    by (cases "ping_server E (srv_url s) (srv_name s) w")
  have "\<exists>d. x = Inr d"
  proof (cases x)
    case (Inl e)
    with p ping_server_Inl [of E "srv_url s" "srv_name s" w e w1] assms show ?thesis
      by blast
  next
    case (Inr d)
    then show ?thesis by simp
  qed
  then obtain d where "x = Inr d" ..
  with p Cons.IH [of "acc @ [d]" "print [] w1"] show ?case
    by simp
qed

lemma successful_count:
  "\<forall>d\<in>set rs. \<exists>b. map_of d ''success'' = Some (JBool b) \<Longrightarrow>
   successful rs = Inr (length (filter is_up rs))"
  by (induction rs) (auto simp: getitem_def is_up_def)

lemma all_up_iff: "length (filter P xs) = length xs \<longleftrightarrow> (\<forall>x\<in>set xs. P x)"
proof (induction xs)
  case Nil
  show ?case by simp
next
  case (Cons x xs)
  have "length (filter P xs) \<le> length xs" by (rule length_filter_le)
  then have ne: "length (filter P xs) \<noteq> Suc (length xs)" by arith
  show ?case
  proof (cases "P x")
    case True
    with Cons show ?thesis by simp
  next
    case False
    with ne show ?thesis by simp
  qed
qed

lemma one_down_probes:
  "ping_each one_down_env servers [] (banner world0) =
     (Inr [[(''server'', JStr ''Node.js API Server''),
            (''url'', JStr ''https://make-it-rag.onrender.com/ping''),
            (''status_code'', JInt 200),
            (''response_time'', JFloat quarter_second),
            (''timestamp'', JStr ''2025-01-01T12:00:00.000000''),
            (''success'', JBool True),
            (''response_data'', JStr ''pong'')],
           [(''server'', JStr ''Python AI Server''),
            (''url'', JStr ''https://make-it-rag-1.onrender.com/ping''),
            (''error'', JStr ''timeout''),
            (''timestamp'', JStr ''2025-01-01T12:00:00.000000''),
            (''success'', JBool False)]],
      \<lparr>clock_reads = 4, requests_sent = 2,
       stdout =
         [rule_line, ''SERVER PING MONITORING'', rule_line,
          ''2025-01-01 12:00:00.000000: Pinging Node.js API Server at https://make-it-rag.onrender.com/ping'',
          check_mark @ '' Node.js API Server is alive (Status: 200)'',
          ''   Response time: 0.250s'',
          [],
          ''2025-01-01 12:00:00.000000: Pinging Python AI Server at https://make-it-rag-1.onrender.com/ping'',
          cross_mark @ '' Python AI Server request timed out after 30 seconds'',
          []]\<rparr>)"
  by (simp add: one_down_env_def env_defs servers_def banner_def ping_defs print_def tick_def
      sent_def str_int_200 format_quarter)

text \<open>
  C3. Once the loop has gone through the servers and left \<open>results\<close>, the run prints
  the summary heading, the line \<open>Servers responding: k/n\<close> with \<open>k\<close> the number of
  results whose \<open>success\<close> is true and \<open>n\<close> the number of servers, then the
  all-healthy message and returns 0 when every result has \<open>success\<close> true, and the
  not-responding message and returns 1 otherwise.
\<close>

theorem run_servers_exit_code:
  assumes "ping_each E svs [] (banner w) = (Inr results, w1)"
  shows "run_servers E svs w =
           (Inr (if \<forall>r\<in>set results. is_up r then 0 else 1),
            w1\<lparr>stdout := stdout w1 @
              [rule_line, ''SUMMARY'', rule_line,
               ''Servers responding: '' @ str_nat (length (filter is_up results)) @ ''/'' @
                 str_nat (length svs),
               if \<forall>r\<in>set results. is_up r
               then party_popper @ '' All servers are healthy!''
               else warning_sign @ '' Some servers are not responding'']\<rparr>)"
proof -
  from ping_each_Inr [OF assms] have
    len: "length results = length svs"
    and ok: "\<forall>d\<in>set results. \<exists>b. map_of d ''success'' = Some (JBool b)"
    by (auto dest: arg_cong [where f = length])
  from successful_count [OF ok] have s: "successful results = Inr (length (filter is_up results))" .
  show ?thesis
    using assms s len all_up_iff [of is_up results]
    by (simp add: run_servers_def print_def Let_def)
qed

theorem run_servers_exit_code_witness:
  "ping_all_servers one_down_env world0 =
     (Inr 1,
      \<lparr>clock_reads = 4, requests_sent = 2,
       stdout =
         [rule_line, ''SERVER PING MONITORING'', rule_line,
          ''2025-01-01 12:00:00.000000: Pinging Node.js API Server at https://make-it-rag.onrender.com/ping'',
          check_mark @ '' Node.js API Server is alive (Status: 200)'',
          ''   Response time: 0.250s'',
          [],
          ''2025-01-01 12:00:00.000000: Pinging Python AI Server at https://make-it-rag-1.onrender.com/ping'',
          cross_mark @ '' Python AI Server request timed out after 30 seconds'',
          [],
          rule_line, ''SUMMARY'', rule_line,
          ''Servers responding: 1/2'',
          warning_sign @ '' Some servers are not responding'']\<rparr>)"
  using run_servers_exit_code [OF one_down_probes]
  by (simp add: ping_all_servers_def is_up_def getitem_def servers_def str_eval)








text \<open>
  C10. Over an empty list of servers both counts are zero: the run prints
  \<open>Servers responding: 0/0\<close> and the all-healthy message, and returns 0.
\<close>

theorem run_servers_empty:
  "run_servers E [] w =
   (Inr 0, w\<lparr>stdout := stdout w @
      [rule_line, ''SERVER PING MONITORING'', rule_line, rule_line, ''SUMMARY'', rule_line,
       ''Servers responding: 0/0'', party_popper @ '' All servers are healthy!'']\<rparr>)"
  by (simp add: run_servers_def banner_def print_def str_nat_0)

end
